theory Spec2Isabelle
  imports
    Complex_Main
    "HOL-Library.Char_ord"
    "HOL-Library.List_Lexorder"
    "HOL-Library.Product_Lexorder"
    "HOL-Library.Multiset"
begin

section \<open>The climate dashboard pipeline of \<^verbatim>\<open>dashboard.py\<close>\<close>

text \<open>
  The script loads a wide table, melts it into one row per (record, year column), converts
  the year labels and the cells to floats, filters the rows by four widget values, prints
  five statistics and aggregates by region. The widgets and charts are the environment:
  what the user selects is an argument of the functions below.

  Conventions of the embedding.
  \<^item> A \<^verbatim>\<open>float64\<close> is \<open>NaN\<close> or a finite value, held as the real number it denotes
    (the reductions compute exactly; infinities are left out).
  \<^item> The text of a cell or of an identifier column is a \<open>string\<close> of bytes (UTF-8): the
    script only compares and sorts such text. A column label is matched against \<^verbatim>\<open>\d\<close>,
    which reads characters, so a label is the list of its Unicode code points.
  \<^item> A column of a frame is a list, one entry per row, in row order.
  \<^item> The numeric-literal parser behind \<^verbatim>\<open>pd.to_numeric\<close>, the rounding of an integer
    beyond \<open>2\<^sup>5\<^sup>3\<close> to a float, and the float formatting behind an f-string are library
    code; they are the parameters \<open>parse\<close>, \<open>nearest\<close> and \<open>repr\<close>.
\<close>

subsection \<open>Values\<close>

datatype float64 = NaN | Fin real

text \<open>A cell of an untyped (object) column: a float, or text that was not parsed on loading.\<close>

datatype cell = Float float64 | Str string

datatype error = ValueError

type_synonym parser = "string \<Rightarrow> float64 option"

text \<open>A column label: the code points of a Python \<^verbatim>\<open>str\<close>.\<close>

type_synonym label = "nat list"

text \<open>What \<^verbatim>\<open>float\<close> gives for an integer too large to be held exactly.\<close>

type_synonym rounding = "nat \<Rightarrow> float64"

definition isna :: "float64 \<Rightarrow> bool" where
  "isna x = (case x of NaN \<Rightarrow> True | Fin v \<Rightarrow> False)"

text \<open>Comparisons of a float with a number: every comparison with \<open>NaN\<close> is false.\<close>

definition ge :: "float64 \<Rightarrow> real \<Rightarrow> bool" where
  "ge x b = (case x of NaN \<Rightarrow> False | Fin v \<Rightarrow> b \<le> v)"

definition le :: "float64 \<Rightarrow> real \<Rightarrow> bool" where
  "le x b = (case x of NaN \<Rightarrow> False | Fin v \<Rightarrow> v \<le> b)"

definition lt :: "float64 \<Rightarrow> float64 \<Rightarrow> bool" where
  "lt x y = (case (x, y) of (Fin v, Fin w) \<Rightarrow> v < w | _ \<Rightarrow> False)"

subsection \<open>Frames\<close>

text \<open>The ten identifier columns of line 21, one record per row.\<close>

record id_vars =
  ObjectId :: int
  Country :: string
  ISO2 :: string
  ISO3 :: string
  Indicator :: string
  Unit :: string
  Source :: string
  CTS_Code :: string
  CTS_Name :: string
  CTS_Full_Descriptor :: string

text \<open>
  The loaded table \<^verbatim>\<open>data\<close>: the identifier columns row by row, and every other column
  as its label with its cells. A frame is rectangular: \<open>rectangular\<close> says that every
  value column has one cell per row.
\<close>

record data_frame =
  id_rows :: "id_vars list"
  value_columns :: "(label \<times> cell list) list"

definition rectangular :: "data_frame \<Rightarrow> bool" where
  "rectangular data = list_all (\<lambda>(l, col). length col = length (id_rows data)) (value_columns data)"

text \<open>A row after \<^verbatim>\<open>pd.melt\<close>: column \<^verbatim>\<open>Year\<close> holds the label, \<^verbatim>\<open>Temperature Change\<close> the raw cell.\<close>

record melted_row = id_vars +
  Year_label :: label
  Temperature_Change_cell :: cell

text \<open>A row of \<^verbatim>\<open>melted_data\<close> after lines 25 and 28: both columns are floats.\<close>

record observation = id_vars +
  Year :: float64
  Temperature_Change :: float64

definition melt_row :: "label \<Rightarrow> id_vars \<Rightarrow> cell \<Rightarrow> melted_row" where
  "melt_row l r c =
     \<lparr>ObjectId = ObjectId r, Country = Country r, ISO2 = ISO2 r, ISO3 = ISO3 r,
      Indicator = Indicator r, Unit = Unit r, Source = Source r, CTS_Code = CTS_Code r,
      CTS_Name = CTS_Name r, CTS_Full_Descriptor = CTS_Full_Descriptor r,
      Year_label = l, Temperature_Change_cell = c\<rparr>"

text \<open>\<^verbatim>\<open>pd.melt\<close> (lines 21-22): the value columns one after the other, each with all rows.\<close>

definition melt :: "data_frame \<Rightarrow> melted_row list" where
  "melt data =
     concat (map (\<lambda>(l, col). map2 (melt_row l) (id_rows data) col) (value_columns data))"

subsection \<open>Year labels (line 25)\<close>

text \<open>
  The decimal digits of Unicode 14.0 (general category \<open>Nd\<close>), which are the characters
  \<^verbatim>\<open>\d\<close> matches in a \<^verbatim>\<open>str\<close> pattern and \<^verbatim>\<open>float\<close> reads as digits. They come in 66
  runs of ten, the digits 0 to 9 in order; \<open>decimal_zeros\<close> lists the code point of the
  zero of each run (\<^verbatim>\<open>0\<close> is 48, the Arabic-Indic zero is 1632, and so on).
\<close>

definition decimal_zeros :: "nat list" where
  "decimal_zeros =
     [48, 1632, 1776, 1984, 2406, 2534, 2662, 2790, 2918, 3046, 3174, 3302, 3430, 3558,
      3664, 3792, 3872, 4160, 4240, 6112, 6160, 6470, 6608, 6784, 6800, 6992, 7088, 7232,
      7248, 42528, 43216, 43264, 43472, 43504, 43600, 44016, 65296, 66720, 68912, 69734,
      69872, 69942, 70096, 70384, 70736, 70864, 71248, 71360, 71472, 71904, 72016, 72784,
      73040, 73120, 92768, 92864, 93008, 120782, 120792, 120802, 120812, 120822, 123200,
      123632, 125264, 130032]"

text \<open>The digit a code point stands for, when it is a decimal digit.\<close>

definition todecimal :: "nat \<Rightarrow> nat option" where
  "todecimal c = map_option (\<lambda>z. c - z) (find (\<lambda>z. z \<le> c \<and> c < z + 10) decimal_zeros)"

definition is_digit :: "nat \<Rightarrow> bool" where
  "is_digit c = (todecimal c \<noteq> None)"

text \<open>\<^verbatim>\<open>.str.extract('(\d+)')\<close>: the first match of the pattern, or missing when nothing matches.\<close>

definition str_extract :: "label \<Rightarrow> label option" where
  "str_extract s =
     (case dropWhile (\<lambda>c. \<not> is_digit c) s of
        [] \<Rightarrow> None
      | d # rest \<Rightarrow> Some (d # takeWhile is_digit rest))"

definition digit_value :: "nat \<Rightarrow> nat" where
  "digit_value c = (case todecimal c of None \<Rightarrow> 0 | Some d \<Rightarrow> d)"

text \<open>The integer that a run of decimal digits writes.\<close>

definition decimal :: "label \<Rightarrow> nat" where
  "decimal ds = foldl (\<lambda>n c. 10 * n + digit_value c) 0 ds"

text \<open>
  \<^verbatim>\<open>.astype(float)\<close> on the extracted text: a missing entry stays missing, and a run of
  digits becomes the float nearest to the integer it writes. A float holds every integer
  up to \<open>2\<^sup>5\<^sup>3\<close> exactly; what a larger one is rounded to is left to \<open>nearest\<close>.
\<close>

definition astype_float :: "rounding \<Rightarrow> label option \<Rightarrow> float64" where
  "astype_float nearest e =
     (case e of
        None \<Rightarrow> NaN
      | Some ds \<Rightarrow> if decimal ds \<le> 2 ^ 53 then Fin (real (decimal ds)) else nearest (decimal ds))"

definition year_of_label :: "rounding \<Rightarrow> label \<Rightarrow> float64" where
  "year_of_label nearest l = astype_float nearest (str_extract l)"

subsection \<open>Numeric coercion (lines 28 and 121)\<close>

datatype errors_mode = Raise | Coerce

definition convert :: "parser \<Rightarrow> cell \<Rightarrow> float64 option" where
  "convert parse c = (case c of Float x \<Rightarrow> Some x | Str s \<Rightarrow> parse s)"

text \<open>A cell holds a valid number when it converts to a finite float.\<close>

definition valid_number :: "parser \<Rightarrow> cell \<Rightarrow> bool" where
  "valid_number parse c = (case convert parse c of Some (Fin v) \<Rightarrow> True | _ \<Rightarrow> False)"

text \<open>
  \<^verbatim>\<open>pd.to_numeric(series, errors=...)\<close>: with \<^verbatim>\<open>'raise'\<close> (the default) one unparsable cell
  raises; with \<^verbatim>\<open>'coerce'\<close> it becomes \<open>NaN\<close>.
\<close>

definition coerce_cell :: "parser \<Rightarrow> cell \<Rightarrow> float64" where
  "coerce_cell parse c = (case convert parse c of None \<Rightarrow> NaN | Some x \<Rightarrow> x)"

definition to_numeric :: "parser \<Rightarrow> errors_mode \<Rightarrow> cell list \<Rightarrow> error + float64 list" where
  "to_numeric parse errors series =
     (case errors of
        Coerce \<Rightarrow> Inr (map (coerce_cell parse) series)
      | Raise \<Rightarrow>
          (case those (map (convert parse) series) of
             None \<Rightarrow> Inl ValueError
           | Some xs \<Rightarrow> Inr xs))"

definition observation_of :: "melted_row \<Rightarrow> float64 \<Rightarrow> float64 \<Rightarrow> observation" where
  "observation_of r y t =
     \<lparr>ObjectId = ObjectId r, Country = Country r, ISO2 = ISO2 r, ISO3 = ISO3 r,
      Indicator = Indicator r, Unit = Unit r, Source = Source r, CTS_Code = CTS_Code r,
      CTS_Name = CTS_Name r, CTS_Full_Descriptor = CTS_Full_Descriptor r,
      Year = y, Temperature_Change = t\<rparr>"

text \<open>Lines 21-28: melt, then replace the two new columns by their numeric versions.\<close>

definition melted_data :: "parser \<Rightarrow> rounding \<Rightarrow> data_frame \<Rightarrow> error + observation list" where
  "melted_data parse nearest data =
     (let m = melt data;
          years = map (\<lambda>r. year_of_label nearest (Year_label r)) m
      in case to_numeric parse Coerce (map Temperature_Change_cell m) of
           Inl e \<Rightarrow> Inl e
         | Inr temps \<Rightarrow> Inr (map (\<lambda>(r, y, t). observation_of r y t) (zip m (zip years temps))))"

subsection \<open>Default date range (lines 31-33)\<close>

text \<open>\<^verbatim>\<open>Series.unique()\<close>: the distinct values in order of first appearance.\<close>

definition unique :: "'a list \<Rightarrow> 'a list" where
  "unique xs = rev (remdups (rev xs))"

text \<open>
  The builtins \<^verbatim>\<open>min\<close> and \<^verbatim>\<open>max\<close> over an array: they raise on an empty one and keep the
  current candidate unless the next element compares smaller (greater).
\<close>

definition py_min :: "float64 list \<Rightarrow> error + float64" where
  "py_min xs = (case xs of [] \<Rightarrow> Inl ValueError
                | x # rest \<Rightarrow> Inr (foldl (\<lambda>m y. if lt y m then y else m) x rest))"

definition py_max :: "float64 list \<Rightarrow> error + float64" where
  "py_max xs = (case xs of [] \<Rightarrow> Inl ValueError
                | x # rest \<Rightarrow> Inr (foldl (\<lambda>m y. if lt m y then y else m) x rest))"

text \<open>\<^verbatim>\<open>int(x)\<close> truncates and raises on \<open>NaN\<close>; \<^verbatim>\<open>datetime.date\<close> accepts the years 1 to 9999.\<close>

definition py_int :: "float64 \<Rightarrow> error + int" where
  "py_int x = (case x of NaN \<Rightarrow> Inl ValueError
               | Fin v \<Rightarrow> Inr (if 0 \<le> v then \<lfloor>v\<rfloor> else \<lceil>v\<rceil>))"

definition date_year :: "int \<Rightarrow> error + int" where
  "date_year y = (if 1 \<le> y \<and> y \<le> 9999 then Inr y else Inl ValueError)"

definition default_date_range :: "observation list \<Rightarrow> error + (int \<times> int)" where
  "default_date_range md =
     (let years = unique (map Year md) in
      case py_min years of Inl e \<Rightarrow> Inl e | Inr lo \<Rightarrow>
      case py_int lo of Inl e \<Rightarrow> Inl e | Inr ilo \<Rightarrow>
      case date_year ilo of Inl e \<Rightarrow> Inl e | Inr start \<Rightarrow>
      case py_max years of Inl e \<Rightarrow> Inl e | Inr hi \<Rightarrow>
      case py_int hi of Inl e \<Rightarrow> Inl e | Inr ihi \<Rightarrow>
      case date_year ihi of Inl e \<Rightarrow> Inl e | Inr end \<Rightarrow> Inr (start, end))"

subsection \<open>Filters (lines 37, 43, 47 and 81)\<close>

text \<open>What the sidebar widgets return.\<close>

record selection =
  date_range :: "int \<times> int"
  selected_countries :: "string list"
  selected_indicator :: string
  temperature_range :: "real \<times> real"

definition filter_date :: "int \<times> int \<Rightarrow> observation list \<Rightarrow> observation list" where
  "filter_date dr df =
     filter (\<lambda>r. ge (Year r) (real_of_int (fst dr)) \<and> le (Year r) (real_of_int (snd dr))) df"

definition filter_country :: "string list \<Rightarrow> observation list \<Rightarrow> observation list" where
  "filter_country cs df = filter (\<lambda>r. Country r \<in> set cs) df"

definition filter_indicator :: "string \<Rightarrow> observation list \<Rightarrow> observation list" where
  "filter_indicator i df = filter (\<lambda>r. Indicator r = i) df"

definition filter_temperature :: "real \<times> real \<Rightarrow> observation list \<Rightarrow> observation list" where
  "filter_temperature tr df =
     filter (\<lambda>r. ge (Temperature_Change r) (fst tr) \<and> le (Temperature_Change r) (snd tr)) df"

text \<open>\<^verbatim>\<open>filtered_data\<close> as it stands after line 47, and after line 81.\<close>

definition filtered_data_47 :: "selection \<Rightarrow> observation list \<Rightarrow> observation list" where
  "filtered_data_47 sel md =
     filter_indicator (selected_indicator sel)
       (filter_country (selected_countries sel)
          (filter_date (date_range sel) md))"

definition filtered_data :: "selection \<Rightarrow> observation list \<Rightarrow> observation list" where
  "filtered_data sel md = filter_temperature (temperature_range sel) (filtered_data_47 sel md)"

text \<open>The four filters as steps that can be run in any order.\<close>

datatype filter_step = By_Date | By_Country | By_Indicator | By_Temperature

fun apply_step :: "selection \<Rightarrow> filter_step \<Rightarrow> observation list \<Rightarrow> observation list" where
  "apply_step sel By_Date df = filter_date (date_range sel) df"
| "apply_step sel By_Country df = filter_country (selected_countries sel) df"
| "apply_step sel By_Indicator df = filter_indicator (selected_indicator sel) df"
| "apply_step sel By_Temperature df = filter_temperature (temperature_range sel) df"

definition apply_steps :: "selection \<Rightarrow> filter_step list \<Rightarrow> observation list \<Rightarrow> observation list" where
  "apply_steps sel steps df = foldl (\<lambda>d s. apply_step sel s d) df steps"

definition code_order :: "filter_step list" where
  "code_order = [By_Date, By_Country, By_Indicator, By_Temperature]"

text \<open>The row predicate of each step, as the boolean mask of its line computes it.\<close>

fun row_mask :: "selection \<Rightarrow> filter_step \<Rightarrow> observation \<Rightarrow> bool" where
  "row_mask sel By_Date r =
     (ge (Year r) (real_of_int (fst (date_range sel))) \<and> le (Year r) (real_of_int (snd (date_range sel))))"
| "row_mask sel By_Country r = (Country r \<in> set (selected_countries sel))"
| "row_mask sel By_Indicator r = (Indicator r = selected_indicator sel)"
| "row_mask sel By_Temperature r =
     (ge (Temperature_Change r) (fst (temperature_range sel)) \<and>
      le (Temperature_Change r) (snd (temperature_range sel)))"

subsection \<open>Series reductions\<close>

text \<open>The reductions skip \<open>NaN\<close> and give \<open>NaN\<close> when nothing is left.\<close>

fun dropna :: "float64 list \<Rightarrow> real list" where
  "dropna [] = []"
| "dropna (NaN # xs) = dropna xs"
| "dropna (Fin v # xs) = v # dropna xs"

definition Series_mean :: "float64 list \<Rightarrow> float64" where
  "Series_mean xs =
     (let vs = dropna xs in if vs = [] then NaN else Fin (sum_list vs / real (length vs)))"

definition Series_median :: "float64 list \<Rightarrow> float64" where
  "Series_median xs =
     (let vs = sort (dropna xs); n = length vs in
      if n = 0 then NaN
      else if odd n then Fin (vs ! (n div 2))
      else Fin ((vs ! (n div 2 - 1) + vs ! (n div 2)) / 2))"

text \<open>\<^verbatim>\<open>Series.std()\<close> is the sample deviation (\<^verbatim>\<open>ddof=1\<close>): fewer than two values give \<open>NaN\<close>.\<close>

definition Series_std :: "float64 list \<Rightarrow> float64" where
  "Series_std xs =
     (let vs = dropna xs; n = length vs in
      if n < 2 then NaN
      else let m = sum_list vs / real n in
           Fin (sqrt (sum_list (map (\<lambda>v. (v - m)\<^sup>2) vs) / real (n - 1))))"

definition Series_max :: "float64 list \<Rightarrow> float64" where
  "Series_max xs = (case dropna xs of [] \<Rightarrow> NaN | v # vs \<Rightarrow> Fin (fold max vs v))"

definition Series_min :: "float64 list \<Rightarrow> float64" where
  "Series_min xs = (case dropna xs of [] \<Rightarrow> NaN | v # vs \<Rightarrow> Fin (fold min vs v))"

subsection \<open>Temperature range default (lines 67-76)\<close>

text \<open>\<^verbatim>\<open>sorted\<close> on a pair: swapped only when the second compares smaller.\<close>

definition sorted_pair :: "float64 \<times> float64 \<Rightarrow> float64 \<times> float64" where
  "sorted_pair p = (if lt (snd p) (fst p) then (snd p, fst p) else p)"

definition initial_temperature_range :: "observation list \<Rightarrow> float64 \<times> float64" where
  "initial_temperature_range df =
     (let temperature_min = Series_min (map Temperature_Change df);
          temperature_max = Series_max (map Temperature_Change df) in
      sorted_pair
        (if isna temperature_min \<or> isna temperature_max then (Fin 0, Fin 1)
         else (temperature_min, temperature_max)))"

subsection \<open>Statistical measures (lines 90-94)\<close>

definition str_float :: "(real \<Rightarrow> string) \<Rightarrow> float64 \<Rightarrow> string" where
  "str_float repr x = (case x of NaN \<Rightarrow> ''nan'' | Fin v \<Rightarrow> repr v)"

definition Statistical_Measures :: "(real \<Rightarrow> string) \<Rightarrow> observation list \<Rightarrow> string list" where
  "Statistical_Measures repr df =
     (let col = map Temperature_Change df in
      [''Mean Temperature Change: '' @ str_float repr (Series_mean col),
       ''Median Temperature Change: '' @ str_float repr (Series_median col),
       ''Standard Deviation: '' @ str_float repr (Series_std col),
       ''Max Temperature Change: '' @ str_float repr (Series_max col),
       ''Min Temperature Change: '' @ str_float repr (Series_min col)])"

subsection \<open>Aggregation (lines 105-126)\<close>

datatype aggregation_level = Level_Country | Level_Region | Level_Continent

definition actual_region_mapping :: "string \<rightharpoonup> string" where
  "actual_region_mapping =
     map_of [(''Afghanistan, Islamic Rep. of'', ''Asia''),
             (''Albania'', ''Europe''),
             (''Algeria'', ''Africa'')]"

text \<open>Line 116: the new column \<^verbatim>\<open>Aggregated\<close>; a country that is no key of the dict gets a missing label.\<close>

definition Aggregated :: "observation \<Rightarrow> string option" where
  "Aggregated r = actual_region_mapping (Country r)"

text \<open>Lines 119-123: any exception of the conversion is caught and \<^verbatim>\<open>None\<close> returned.\<close>

definition custom_mean :: "parser \<Rightarrow> cell list \<Rightarrow> float64 option" where
  "custom_mean parse series =
     (case to_numeric parse Raise series of
        Inl e \<Rightarrow> None
      | Inr xs \<Rightarrow> Some (Series_mean xs))"

text \<open>
  The key of a row for \<^verbatim>\<open>groupby(['Aggregated', 'Year'])\<close>: a row with a missing key
  column belongs to no group (\<^verbatim>\<open>dropna=True\<close> is the default).
\<close>

definition group_key :: "observation \<Rightarrow> (string \<times> real) option" where
  "group_key r =
     (case Aggregated r of
        None \<Rightarrow> None
      | Some g \<Rightarrow> (case Year r of NaN \<Rightarrow> None | Fin y \<Rightarrow> Some (g, y)))"

text \<open>
  Line 126: one row per group, the groups in sorted key order, each with the result of the
  reducer on the group's \<^verbatim>\<open>Temperature Change\<close> values.
\<close>

definition aggregated_data ::
    "parser \<Rightarrow> observation list \<Rightarrow> ((string \<times> real) \<times> float64 option) list" where
  "aggregated_data parse df =
     map (\<lambda>k. (k, custom_mean parse
                    (map (\<lambda>r. Float (Temperature_Change r)) (filter (\<lambda>r. group_key r = Some k) df))))
         (sort (remdups (List.map_filter group_key df)))"

text \<open>The title of the aggregated chart (line 131) is where the selected level is used.\<close>

definition level_name :: "aggregation_level \<Rightarrow> string" where
  "level_name level =
     (case level of Level_Country \<Rightarrow> ''Country'' | Level_Region \<Rightarrow> ''Region''
      | Level_Continent \<Rightarrow> ''Continent'')"

definition fig_aggregated_title :: "aggregation_level \<Rightarrow> string" where
  "fig_aggregated_title level = ''Aggregated Temperature Change Over Time by '' @ level_name level"

text \<open>
  Feature 12 as a whole (lines 105-131): from the level chosen in the select box and the
  filtered rows to the aggregated table and the title of its chart.
\<close>

definition Data_Aggregation ::
    "parser \<Rightarrow> aggregation_level \<Rightarrow> observation list
       \<Rightarrow> ((string \<times> real) \<times> float64 option) list \<times> string" where
  "Data_Aggregation parse level df = (aggregated_data parse df, fig_aggregated_title level)"

subsection \<open>Sample inputs\<close>

text \<open>
  Two records, Albania and Algeria, with the year columns \<^verbatim>\<open>F2020\<close> and \<^verbatim>\<open>F2021\<close>; the
  Albanian cell of 2021 is the text \<^verbatim>\<open>n/a\<close>. The second frame has a column whose label
  holds no digit. \<open>ascii\<close> gives the code points of a text of ASCII characters.
\<close>

definition ascii :: "string \<Rightarrow> label" where
  "ascii s = map of_char s"

definition albania :: id_vars where
  "albania =
     \<lparr>ObjectId = 1, Country = ''Albania'', ISO2 = ''AL'', ISO3 = ''ALB'',
      Indicator = ''Temperature change'', Unit = ''Degree Celsius'', Source = ''FAO'',
      CTS_Code = ''ECCS'', CTS_Name = ''Surface Temperature Change'',
      CTS_Full_Descriptor = ''Environment, Climate Change''\<rparr>"

definition algeria :: id_vars where
  "algeria =
     \<lparr>ObjectId = 2, Country = ''Algeria'', ISO2 = ''DZ'', ISO3 = ''DZA'',
      Indicator = ''Temperature change'', Unit = ''Degree Celsius'', Source = ''FAO'',
      CTS_Code = ''ECCS'', CTS_Name = ''Surface Temperature Change'',
      CTS_Full_Descriptor = ''Environment, Climate Change''\<rparr>"

definition andorra :: id_vars where
  "andorra =
     \<lparr>ObjectId = 3, Country = ''Andorra, Principality of'', ISO2 = ''AD'', ISO3 = ''AND'',
      Indicator = ''Temperature change'', Unit = ''Degree Celsius'', Source = ''FAO'',
      CTS_Code = ''ECCS'', CTS_Name = ''Surface Temperature Change'',
      CTS_Full_Descriptor = ''Environment, Climate Change''\<rparr>"

definition sample_data :: data_frame where
  "sample_data =
     \<lparr>id_rows = [albania, algeria],
      value_columns = [(ascii ''F2020'', [Float (Fin 1), Float (Fin 2)]),
                       (ascii ''F2021'', [Str ''n/a'', Float (Fin 3)])]\<rparr>"

definition sample_data_total :: data_frame where
  "sample_data_total =
     \<lparr>id_rows = [albania],
      value_columns = [(ascii ''F2020'', [Float (Fin 1)]), (ascii ''Total'', [Float (Fin 4)])]\<rparr>"

text \<open>A parser that accepts no text at all.\<close>

definition no_parse :: parser where
  "no_parse s = None"

text \<open>A rounding for the samples, whose years are far below \<open>2\<^sup>5\<^sup>3\<close> and never reach it.\<close>

definition no_rounding :: rounding where
  "no_rounding n = Fin (real n)"

text \<open>A float formatting that prints every finite value the same way.\<close>

definition plain_repr :: "real \<Rightarrow> string" where
  "plain_repr v = ''1.0''"

definition row :: "id_vars \<Rightarrow> real \<Rightarrow> float64 \<Rightarrow> observation" where
  "row r y t = observation_of (melt_row [] r (Float t)) (Fin y) t"

definition sample_selection :: selection where
  "sample_selection =
     \<lparr>date_range = (2020, 2021), selected_countries = [''Albania'', ''Algeria''],
      selected_indicator = ''Temperature change'', temperature_range = (1, 3)\<rparr>"

section \<open>Properties\<close>

subsection \<open>Digits and sample labels\<close>

lemma todecimal_ascii:
  "c < 128 \<Longrightarrow> todecimal c = (if 48 \<le> c \<and> c < 58 then Some (c - 48) else None)"
  by (simp add: todecimal_def decimal_zeros_def)

lemma is_digit_ascii: "c < 128 \<Longrightarrow> is_digit c = (48 \<le> c \<and> c < 58)"
  by (simp add: is_digit_def todecimal_ascii)

lemma digit_value_ascii: "48 \<le> c \<Longrightarrow> c < 58 \<Longrightarrow> digit_value c = c - 48"
  by (simp add: digit_value_def todecimal_ascii)

lemma ascii_samples:
  "ascii ''F'' = [70]" "ascii ''2020'' = [50, 48, 50, 48]"
  "ascii ''F2020'' = [70, 50, 48, 50, 48]" "ascii ''F2021'' = [70, 50, 48, 50, 49]"
  "ascii ''Total'' = [84, 111, 116, 97, 108]"
  by (simp_all add: ascii_def)

lemma year_of_label_samples:
  "year_of_label nearest (ascii ''F2020'') = Fin 2020"
  "year_of_label nearest (ascii ''F2021'') = Fin 2021"
  "year_of_label nearest (ascii ''Total'') = NaN"
  by (simp_all add: year_of_label_def str_extract_def astype_float_def ascii_samples
      is_digit_ascii decimal_def digit_value_ascii)

subsection \<open>Reshaping\<close>

lemma to_numeric_Coerce: "to_numeric parse Coerce series = Inr (map (coerce_cell parse) series)"
  by (simp add: to_numeric_def)

lemma zip_columns: "zip m (zip (map f m) (map g m)) = map (\<lambda>r. (r, f r, g r)) m"
  by (induction m) simp_all

lemma melted_data_rows:
  "melted_data parse nearest data =
     Inr (map (\<lambda>r. observation_of r (year_of_label nearest (Year_label r))
                      (coerce_cell parse (Temperature_Change_cell r))) (melt data))"
  by (simp add: melted_data_def to_numeric_Coerce zip_columns Let_def)

lemma concat_nth_block:
  "\<forall>xs \<in> set xss. length xs = n \<Longrightarrow> j < length xss \<Longrightarrow> i < n \<Longrightarrow>
   concat xss ! (j * n + i) = xss ! j ! i"
proof (induction xss arbitrary: j)
  case Nil
  then show ?case by simp
next
  case (Cons xs xss)
  show ?case
  proof (cases j)
    case 0
    with Cons.prems show ?thesis by (simp add: nth_append)
  next
    case (Suc j')
    with Cons.prems have "concat xss ! (j' * n + i) = xss ! j' ! i"
      by (intro Cons.IH) auto
    moreover have "length xs = n" using Cons.prems by simp
    ultimately show ?thesis using Suc by (simp add: nth_append add.assoc)
  qed
qed

lemma length_concat_block:
  "\<forall>xs \<in> set xss. length xs = n \<Longrightarrow> length (concat xss) = n * length xss"
  by (induction xss) simp_all

lemma melt_blocks:
  assumes "rectangular data"
  shows "\<forall>xs \<in> set (map (\<lambda>(l, col). map2 (melt_row l) (id_rows data) col) (value_columns data)).
           length xs = length (id_rows data)"
  using assms by (auto simp: rectangular_def list_all_iff)

lemma length_melt:
  "rectangular data \<Longrightarrow> length (melt data) = length (id_rows data) * length (value_columns data)"
  unfolding melt_def using length_concat_block [OF melt_blocks] by fastforce

lemma melt_nth:
  assumes "rectangular data" "j < length (value_columns data)" "i < length (id_rows data)"
  shows "melt data ! (j * length (id_rows data) + i) =
           melt_row (fst (value_columns data ! j)) (id_rows data ! i) (snd (value_columns data ! j) ! i)"
proof -
  obtain l col where lc: "value_columns data ! j = (l, col)" by (cases "value_columns data ! j")
  have len: "length col = length (id_rows data)"
    using assms(1,2) lc unfolding rectangular_def list_all_iff
    by (metis (mono_tags, lifting) case_prod_conv nth_mem)
  have "melt data ! (j * length (id_rows data) + i) =
          map (\<lambda>(l, col). map2 (melt_row l) (id_rows data) col) (value_columns data) ! j ! i"
    unfolding melt_def using concat_nth_block [OF melt_blocks [OF assms(1)], of j i] assms(2,3) by simp
  also have "\<dots> = map2 (melt_row l) (id_rows data) col ! i" using assms(2) lc by simp
  also have "\<dots> = melt_row l (id_rows data ! i) (col ! i)" using assms(3) len by simp
  finally show ?thesis using lc by simp
qed

subsection \<open>Filtering\<close>

lemma apply_steps_mask:
  "apply_steps sel steps df = filter (\<lambda>r. \<forall>s \<in> set steps. row_mask sel s r) df"
proof (induction steps arbitrary: df)
  case Nil
  then show ?case by (simp add: apply_steps_def)
next
  case (Cons s steps)
  have one: "apply_step sel s df = filter (row_mask sel s) df"
    by (cases s) (auto simp add: filter_date_def filter_country_def filter_indicator_def
        filter_temperature_def intro: filter_cong)
  have "apply_steps sel (s # steps) df = apply_steps sel steps (apply_step sel s df)"
    by (simp add: apply_steps_def)
  also have "\<dots> = filter (\<lambda>r. \<forall>s \<in> set steps. row_mask sel s r) (filter (row_mask sel s) df)"
    using Cons.IH one by simp
  also have "\<dots> = filter (\<lambda>r. \<forall>t \<in> set (s # steps). row_mask sel t r) df"
    by (simp add: conj_commute)
  finally show ?case .
qed

lemma filtered_data_code_order: "filtered_data sel df = apply_steps sel code_order df"
  by (simp add: filtered_data_def filtered_data_47_def apply_steps_def code_order_def)

text \<open>
  Claim C1. For every table of observations and every value of the four widgets, running
  the four filters in any permutation of the script's order (date, country, indicator,
  temperature) gives the rows that \<^verbatim>\<open>filtered_data\<close> holds after line 81: the same rows
  in the same order, hence the same set.
\<close>

theorem filters_commute:
  assumes "mset steps = mset code_order"
  shows "apply_steps sel steps df = filtered_data sel df"
proof -
  have "set steps = set code_order" using assms by (rule mset_eq_setD)
  then show ?thesis by (simp add: apply_steps_mask filtered_data_code_order)
qed

theorem filters_commute_witness:
  "mset [By_Temperature, By_Indicator, By_Country, By_Date] = mset code_order \<and>
   apply_steps sample_selection [By_Temperature, By_Indicator, By_Country, By_Date]
     [row albania 2020 (Fin 1), row andorra 2020 (Fin 2), row algeria 2021 NaN,
      row algeria 2019 (Fin 2)] =
   filtered_data sample_selection
     [row albania 2020 (Fin 1), row andorra 2020 (Fin 2), row algeria 2021 NaN,
      row algeria 2019 (Fin 2)] \<and>
   filtered_data sample_selection
     [row albania 2020 (Fin 1), row andorra 2020 (Fin 2), row algeria 2021 NaN,
      row algeria 2019 (Fin 2)] =
   [row albania 2020 (Fin 1)]"
proof -
  have h: "mset [By_Temperature, By_Indicator, By_Country, By_Date] = mset code_order"
    by (simp add: code_order_def)
  have v: "filtered_data sample_selection
     [row albania 2020 (Fin 1), row andorra 2020 (Fin 2), row algeria 2021 NaN,
      row algeria 2019 (Fin 2)] =
   [row albania 2020 (Fin 1)]"
    by (simp add: filtered_data_def filtered_data_47_def filter_date_def filter_country_def
        filter_indicator_def filter_temperature_def sample_selection_def row_def observation_of_def
        melt_row_def albania_def algeria_def andorra_def ge_def le_def)
  show ?thesis using h v filters_commute [OF h, of sample_selection] by simp
qed

text \<open>
  Claim C3. With an empty list of selected countries the country filter of line 43 keeps
  no row of any table, and so \<^verbatim>\<open>filtered_data\<close> is empty after line 47 and after line 81,
  whatever the other widgets hold: an empty selection matches nothing.
\<close>

theorem empty_country_set:
  "filter_country [] df = [] \<and>
   filtered_data_47 (sel\<lparr>selected_countries := []\<rparr>) md = [] \<and>
   filtered_data (sel\<lparr>selected_countries := []\<rparr>) md = []"
  by (simp add: filter_country_def filtered_data_def filtered_data_47_def filter_indicator_def
      filter_temperature_def)

subsection \<open>Row count and layout of the melted table\<close>

lemma melted_data_nth:
  assumes "rectangular data" "j < length (value_columns data)" "i < length (id_rows data)"
    and "melted_data parse nearest data = Inr obs"
  shows "obs ! (j * length (id_rows data) + i) =
           observation_of
             (melt_row (fst (value_columns data ! j)) (id_rows data ! i)
                (snd (value_columns data ! j) ! i))
             (year_of_label nearest (fst (value_columns data ! j)))
             (coerce_cell parse (snd (value_columns data ! j) ! i))"
proof -
  let ?n = "length (id_rows data)"
  have "j * ?n + i < ?n * length (value_columns data)"
  proof -
    have "j * ?n + i < j * ?n + ?n" using assms(3) by simp
    also have "\<dots> = ?n * Suc j" by simp
    also have "\<dots> \<le> ?n * length (value_columns data)"
      using assms(2) by (intro mult_le_mono2) simp
    finally show ?thesis .
  qed
  then have k: "j * ?n + i < length (melt data)" using length_melt [OF assms(1)] by simp
  have "obs = map (\<lambda>r. observation_of r (year_of_label nearest (Year_label r))
                      (coerce_cell parse (Temperature_Change_cell r))) (melt data)"
    using assms(4) by (simp add: melted_data_rows)
  then show ?thesis using k melt_nth [OF assms(1-3)] by (simp add: melt_row_def)
qed

text \<open>
  Claim C2. For every rectangular loaded table, lines 21-28 return (they do not raise)
  a table with as many rows as there are records times value columns; the row at
  position \<open>j * n + i\<close> is the observation of record \<open>i\<close> and value column \<open>j\<close>, so
  there is exactly one observation for each (record, value column) pair.
\<close>

theorem reshape_row_count:
  assumes "rectangular data"
  shows "\<exists>obs. melted_data parse nearest data = Inr obs \<and>
           length obs = length (id_rows data) * length (value_columns data) \<and>
           (\<forall>j < length (value_columns data). \<forall>i < length (id_rows data).
              obs ! (j * length (id_rows data) + i) =
                observation_of
                  (melt_row (fst (value_columns data ! j)) (id_rows data ! i)
                     (snd (value_columns data ! j) ! i))
                  (year_of_label nearest (fst (value_columns data ! j)))
                  (coerce_cell parse (snd (value_columns data ! j) ! i)))"
proof -
  obtain obs where obs: "melted_data parse nearest data = Inr obs" by (simp add: melted_data_rows)
  then have "length obs = length (melt data)" by (auto simp add: melted_data_rows)
  then have "length obs = length (id_rows data) * length (value_columns data)"
    using length_melt [OF assms] by simp
  moreover have "\<forall>j < length (value_columns data). \<forall>i < length (id_rows data).
              obs ! (j * length (id_rows data) + i) =
                observation_of
                  (melt_row (fst (value_columns data ! j)) (id_rows data ! i)
                     (snd (value_columns data ! j) ! i))
                  (year_of_label nearest (fst (value_columns data ! j)))
                  (coerce_cell parse (snd (value_columns data ! j) ! i))"
    using melted_data_nth [OF assms _ _ obs] by blast
  ultimately show ?thesis using obs by blast
qed

lemma rectangular_sample_data: "rectangular sample_data"
  by (simp add: rectangular_def sample_data_def)

theorem reshape_row_count_witness:
  "rectangular sample_data \<and>
   (\<exists>obs. melted_data no_parse no_rounding sample_data = Inr obs \<and> length obs = 4 \<and>
          obs ! 2 = row albania 2021 NaN)"
proof -
  have r: "rectangular sample_data" by (rule rectangular_sample_data)
  obtain obs where obs: "melted_data no_parse no_rounding sample_data = Inr obs"
      "length obs = length (id_rows sample_data) * length (value_columns sample_data)"
      "\<forall>j < length (value_columns sample_data). \<forall>i < length (id_rows sample_data).
              obs ! (j * length (id_rows sample_data) + i) =
                observation_of
                  (melt_row (fst (value_columns sample_data ! j)) (id_rows sample_data ! i)
                     (snd (value_columns sample_data ! j) ! i))
                  (year_of_label no_rounding (fst (value_columns sample_data ! j)))
                  (coerce_cell no_parse (snd (value_columns sample_data ! j) ! i))"
    using reshape_row_count [OF r, of no_parse no_rounding] by blast
  have "length obs = 4" using obs(2) by (simp add: sample_data_def)
  moreover have "obs ! 2 = row albania 2021 NaN"
    using obs(3) [rule_format, of 1 0]
    by (simp add: sample_data_def year_of_label_samples coerce_cell_def convert_def no_parse_def
        row_def observation_of_def melt_row_def numeral_2_eq_2)
  ultimately show ?thesis using r obs(1) by blast
qed

subsection \<open>Years from column labels\<close>

lemma str_extract_first_run:
  assumes "l = pre @ run @ post" "\<forall>c \<in> set pre. \<not> is_digit c" "run \<noteq> []"
    "\<forall>c \<in> set run. is_digit c" "post = [] \<or> \<not> is_digit (hd post)"
  shows "str_extract l = Some run"
proof -
  obtain d ds where run: "run = d # ds" using assms(3) by (cases run) auto
  have d: "is_digit d" and ds: "\<forall>c \<in> set ds. is_digit c" using assms(4) run by auto
  have "dropWhile (\<lambda>c. \<not> is_digit c) l = dropWhile (\<lambda>c. \<not> is_digit c) (run @ post)"
    using assms(1,2) by (simp add: dropWhile_append2)
  also have "\<dots> = d # (ds @ post)" using run d by simp
  finally have drop: "dropWhile (\<lambda>c. \<not> is_digit c) l = d # (ds @ post)" .
  have "takeWhile is_digit post = []" using assms(5) by (cases post) auto
  then have "takeWhile is_digit (ds @ post) = ds" using ds by (simp add: takeWhile_append2)
  then show ?thesis unfolding str_extract_def drop using run by simp
qed

lemma str_extract_no_digit:
  assumes "\<forall>c \<in> set l. \<not> is_digit c"
  shows "str_extract l = None"
proof -
  have drop: "dropWhile (\<lambda>c. \<not> is_digit c) l = []" using assms by simp
  show ?thesis unfolding str_extract_def drop by simp
qed

text \<open>
  Claim C5, as amended. The observation of record \<open>i\<close> and value column \<open>j\<close> has, as its
  \<^verbatim>\<open>Year\<close>, the float of the first maximal run of decimal digits of the column's label
  (the label is some digit-free text, then the run, then nothing or text that starts with
  a non-digit; a digit is any Unicode decimal digit): the integer the run writes when that
  is at most \<open>2\<^sup>5\<^sup>3\<close>, and what the library rounds it to otherwise. When the label holds
  no decimal digit the reshaping neither fails nor skips the column: the table is returned
  with all its rows, and the rows of that column have the missing year \<open>NaN\<close>.
\<close>

theorem year_extraction:
  assumes "rectangular data" "j < length (value_columns data)" "i < length (id_rows data)"
  shows "\<exists>obs. melted_data parse nearest data = Inr obs \<and>
           length obs = length (id_rows data) * length (value_columns data) \<and>
           (\<forall>pre run post.
              fst (value_columns data ! j) = pre @ run @ post \<and> (\<forall>c \<in> set pre. \<not> is_digit c) \<and>
              run \<noteq> [] \<and> (\<forall>c \<in> set run. is_digit c) \<and> (post = [] \<or> \<not> is_digit (hd post)) \<longrightarrow>
              Year (obs ! (j * length (id_rows data) + i)) =
                (if decimal run \<le> 2 ^ 53 then Fin (real (decimal run)) else nearest (decimal run))) \<and>
           ((\<forall>c \<in> set (fst (value_columns data ! j)). \<not> is_digit c) \<longrightarrow>
              Year (obs ! (j * length (id_rows data) + i)) = NaN)"
proof -
  obtain obs where obs: "melted_data parse nearest data = Inr obs"
    by (simp add: melted_data_rows)
  have len: "length obs = length (id_rows data) * length (value_columns data)"
    using obs length_melt [OF assms(1)] by (auto simp add: melted_data_rows)
  have year: "Year (obs ! (j * length (id_rows data) + i)) =
                year_of_label nearest (fst (value_columns data ! j))"
    using melted_data_nth [OF assms obs] by (simp add: observation_of_def)
  have "Year (obs ! (j * length (id_rows data) + i)) =
          (if decimal run \<le> 2 ^ 53 then Fin (real (decimal run)) else nearest (decimal run))"
    if "fst (value_columns data ! j) = pre @ run @ post" "\<forall>c \<in> set pre. \<not> is_digit c"
      "run \<noteq> []" "\<forall>c \<in> set run. is_digit c" "post = [] \<or> \<not> is_digit (hd post)"
    for pre run post
    using year str_extract_first_run [OF that] by (simp add: year_of_label_def astype_float_def)
  moreover have "Year (obs ! (j * length (id_rows data) + i)) = NaN"
    if "\<forall>c \<in> set (fst (value_columns data ! j)). \<not> is_digit c"
    using year str_extract_no_digit [OF that] by (simp add: year_of_label_def astype_float_def)
  ultimately show ?thesis using obs len by blast
qed

lemma rectangular_sample_data_total: "rectangular sample_data_total"
  by (simp add: rectangular_def sample_data_total_def)

lemma decimal_2020: "decimal (ascii ''2020'') = 2020"
  by (simp add: ascii_samples decimal_def digit_value_ascii)

theorem year_extraction_witness:
  "rectangular sample_data_total \<and>
   (\<exists>obs. melted_data no_parse no_rounding sample_data_total = Inr obs \<and> length obs = 2 \<and>
          Year (obs ! 0) = Fin 2020) \<and>
   (\<exists>obs. melted_data no_parse no_rounding sample_data_total = Inr obs \<and> length obs = 2 \<and>
          Year (obs ! 1) = NaN)"
proof -
  let ?d = sample_data_total
  have r: "rectangular ?d" by (rule rectangular_sample_data_total)
  have j0: "0 < length (value_columns ?d)" and j1: "1 < length (value_columns ?d)"
    and i0: "0 < length (id_rows ?d)"
    by (simp_all add: sample_data_total_def)
  have n: "length (id_rows ?d) * length (value_columns ?d) = 2"
    and k0: "0 * length (id_rows ?d) + 0 = 0" and k1: "1 * length (id_rows ?d) + 0 = 1"
    by (simp_all add: sample_data_total_def)
  have l0: "fst (value_columns ?d ! 0) = ascii ''F'' @ ascii ''2020'' @ []"
    and l1: "fst (value_columns ?d ! 1) = ascii ''Total''"
    by (simp_all add: sample_data_total_def ascii_def)
  have digits: "(\<forall>c \<in> set (ascii ''F''). \<not> is_digit c)" "ascii ''2020'' \<noteq> []"
    "(\<forall>c \<in> set (ascii ''2020''). is_digit c)"
    by (simp_all add: ascii_samples is_digit_ascii)
  have nodigits: "\<forall>c \<in> set (fst (value_columns ?d ! 1)). \<not> is_digit c"
    unfolding l1 by (simp add: ascii_samples is_digit_ascii)
  obtain obs where obs: "melted_data no_parse no_rounding ?d = Inr obs"
    "length obs = length (id_rows ?d) * length (value_columns ?d)"
    "\<forall>pre run post.
              fst (value_columns ?d ! 0) = pre @ run @ post \<and> (\<forall>c \<in> set pre. \<not> is_digit c) \<and>
              run \<noteq> [] \<and> (\<forall>c \<in> set run. is_digit c) \<and> (post = [] \<or> \<not> is_digit (hd post)) \<longrightarrow>
              Year (obs ! (0 * length (id_rows ?d) + 0)) =
                (if decimal run \<le> 2 ^ 53 then Fin (real (decimal run))
                 else no_rounding (decimal run))"
    using year_extraction [OF r j0 i0, of no_parse no_rounding] by blast
  have "Year (obs ! (0 * length (id_rows ?d) + 0)) =
          (if decimal (ascii ''2020'') \<le> 2 ^ 53 then Fin (real (decimal (ascii ''2020'')))
           else no_rounding (decimal (ascii ''2020'')))"
    using obs(3) [rule_format, of "ascii ''F''" "ascii ''2020''" "[]"] l0 digits by blast
  then have y0: "Year (obs ! 0) = Fin 2020" unfolding k0 decimal_2020 by simp
  obtain obs' where obs': "melted_data no_parse no_rounding ?d = Inr obs'"
    "length obs' = length (id_rows ?d) * length (value_columns ?d)"
    "(\<forall>c \<in> set (fst (value_columns ?d ! 1)). \<not> is_digit c) \<longrightarrow>
              Year (obs' ! (1 * length (id_rows ?d) + 0)) = NaN"
    using year_extraction [OF r j1 i0, of no_parse no_rounding] by blast
  have y1: "Year (obs' ! 1) = NaN" using obs'(3) nodigits unfolding k1 by blast
  show ?thesis using r obs(1,2) obs'(1,2) y0 y1 n by auto
qed

text \<open>
  Claim C5 as stated fails: on a table with the value columns \<^verbatim>\<open>F2020\<close> and \<^verbatim>\<open>Total\<close> the
  reshaping returns both rows, and the row of \<^verbatim>\<open>Total\<close> carries the year \<open>NaN\<close>; the
  column is neither skipped nor rejected.
\<close>

theorem missing_year_counterexample:
  "melted_data no_parse no_rounding sample_data_total =
     Inr [row albania 2020 (Fin 1),
          observation_of (melt_row (ascii ''Total'') albania (Float (Fin 4))) NaN (Fin 4)]"
  by (simp add: melted_data_def melt_def sample_data_total_def to_numeric_def coerce_cell_def
      convert_def year_of_label_samples row_def observation_of_def melt_row_def)

text \<open>
  Labels outside the plain case. A digit of another script counts: the label \<^verbatim>\<open>F\<close>
  followed by the Arabic-Indic digits of 2021 has the year 2021, and a label that starts
  with the Arabic-Indic digit three has the year 3 whatever follows. A run that writes
  \<open>2\<^sup>5\<^sup>3 + 1\<close> is not held exactly: its year is what the library rounds it to.
\<close>

lemma todecimal_arabic_indic:
  "todecimal 1632 = Some 0" "todecimal 1633 = Some 1" "todecimal 1634 = Some 2"
  "todecimal 1635 = Some 3"
  by (simp_all add: todecimal_def decimal_zeros_def)

lemma year_of_label_arabic_indic:
  "year_of_label nearest [70, 1634, 1632, 1634, 1633] = Fin 2021"
  "year_of_label nearest ([1635] @ ascii ''F2020'') = Fin 3"
  by (simp_all add: year_of_label_def str_extract_def astype_float_def ascii_samples
      is_digit_def todecimal_arabic_indic todecimal_ascii decimal_def digit_value_def)

lemma year_of_label_beyond_exact:
  "year_of_label nearest (ascii ''F9007199254740993'') = nearest 9007199254740993"
  by (simp add: year_of_label_def str_extract_def astype_float_def ascii_def
      is_digit_ascii decimal_def digit_value_ascii)

subsection \<open>Missing values\<close>

lemma dropna_append: "dropna (xs @ ys) = dropna xs @ dropna ys"
proof (induction xs)
  case Nil
  then show ?case by simp
next
  case (Cons x xs)
  then show ?case by (cases x) simp_all
qed

lemma dropna_skip: "dropna (xs @ NaN # ys) = dropna (xs @ ys)"
  by (simp add: dropna_append)

lemma those_convert_Float: "those (map (convert parse) (map Float xs)) = Some xs"
  by (induction xs) (simp_all add: convert_def)

lemma custom_mean_Float: "custom_mean parse (map Float xs) = Some (Series_mean xs)"
  unfolding custom_mean_def to_numeric_def those_convert_Float by simp

lemma Series_skip:
  "Series_mean (xs @ NaN # ys) = Series_mean (xs @ ys)"
  "Series_median (xs @ NaN # ys) = Series_median (xs @ ys)"
  "Series_std (xs @ NaN # ys) = Series_std (xs @ ys)"
  "Series_max (xs @ NaN # ys) = Series_max (xs @ ys)"
  "Series_min (xs @ NaN # ys) = Series_min (xs @ ys)"
  unfolding Series_mean_def Series_median_def Series_std_def Series_max_def Series_min_def
    dropna_skip by (rule refl)+

lemma Statistical_Measures_skip:
  assumes "Temperature_Change r = NaN"
  shows "Statistical_Measures repr (before @ r # after) = Statistical_Measures repr (before @ after)"
proof -
  have col: "map Temperature_Change (r # after) = NaN # map Temperature_Change after"
    using assms by simp
  show ?thesis unfolding Statistical_Measures_def Let_def
    by (simp only: map_append col Series_skip)
qed

lemma filter_temperature_valid:
  "r \<in> set (filter_temperature tr df) \<Longrightarrow> Temperature_Change r \<noteq> NaN"
  by (auto simp add: filter_temperature_def ge_def)

lemma coerce_invalid: "\<not> valid_number parse c \<Longrightarrow> coerce_cell parse c = NaN"
  by (auto simp add: valid_number_def coerce_cell_def split: option.splits float64.splits)

text \<open>
  Claim C4. When the cell of record \<open>i\<close> in value column \<open>j\<close> holds no valid number, the
  reshaping still returns a table (it does not raise), and the observation of that cell
  has the missing value \<open>NaN\<close> as its \<^verbatim>\<open>Temperature Change\<close>. Downstream the value is left
  out, not counted as zero: with the observation anywhere among other rows the five
  statistics and the mean reducer of the aggregation give what they give without it, and
  the observation is in no filtered view, since the temperature filter of line 81 drops it.
\<close>

theorem missing_value_propagation:
  assumes "rectangular data" "j < length (value_columns data)" "i < length (id_rows data)"
    and "\<not> valid_number parse (snd (value_columns data ! j) ! i)"
  shows "\<exists>obs. melted_data parse nearest data = Inr obs \<and>
           Temperature_Change (obs ! (j * length (id_rows data) + i)) = NaN \<and>
           Statistical_Measures repr (before @ obs ! (j * length (id_rows data) + i) # after) =
             Statistical_Measures repr (before @ after) \<and>
           custom_mean parse (map (\<lambda>r. Float (Temperature_Change r))
               (before @ obs ! (j * length (id_rows data) + i) # after)) =
             custom_mean parse (map (\<lambda>r. Float (Temperature_Change r)) (before @ after)) \<and>
           obs ! (j * length (id_rows data) + i) \<notin> set (filtered_data sel df)"
proof -
  let ?k = "j * length (id_rows data) + i"
  obtain obs where obs: "melted_data parse nearest data = Inr obs" by (simp add: melted_data_rows)
  have t: "Temperature_Change (obs ! ?k) = NaN"
    using melted_data_nth [OF assms(1-3) obs] coerce_invalid [OF assms(4)]
    by (simp add: observation_of_def)
  have s: "Statistical_Measures repr (before @ obs ! ?k # after) =
             Statistical_Measures repr (before @ after)"
    using t by (rule Statistical_Measures_skip)
  have "map (\<lambda>r. Float (Temperature_Change r)) (before @ obs ! ?k # after) =
          map Float (map Temperature_Change before @ NaN # map Temperature_Change after)"
    using t by simp
  moreover have "map (\<lambda>r. Float (Temperature_Change r)) (before @ after) =
          map Float (map Temperature_Change before @ map Temperature_Change after)"
    by simp
  ultimately have c: "custom_mean parse (map (\<lambda>r. Float (Temperature_Change r))
               (before @ obs ! ?k # after)) =
             custom_mean parse (map (\<lambda>r. Float (Temperature_Change r)) (before @ after))"
    by (simp only: custom_mean_Float Series_skip)
  have f: "obs ! ?k \<notin> set (filtered_data sel df)"
    using t filter_temperature_valid unfolding filtered_data_def by blast
  show ?thesis using obs t s c f by blast
qed

lemma Series_mean_1_3: "Series_mean [Fin 1, Fin 3] = Fin 2"
  by (simp add: Series_mean_def)

theorem missing_value_propagation_witness:
  "rectangular sample_data \<and>
   \<not> valid_number no_parse (Str ''n/a'') \<and>
   (\<exists>obs. melted_data no_parse no_rounding sample_data = Inr obs \<and>
      Temperature_Change (obs ! 2) = NaN \<and>
      custom_mean no_parse (map (\<lambda>r. Float (Temperature_Change r))
          ([row albania 2020 (Fin 1)] @ obs ! 2 # [row algeria 2021 (Fin 3)])) = Some (Fin 2) \<and>
      obs ! 2 \<notin> set (filtered_data sample_selection
                        [row albania 2021 NaN, row algeria 2021 (Fin 3)]))"
proof -
  let ?d = sample_data
  have r: "rectangular ?d" by (rule rectangular_sample_data)
  have j: "1 < length (value_columns ?d)" and i: "0 < length (id_rows ?d)"
    and k: "1 * length (id_rows ?d) + 0 = 2"
    and c: "snd (value_columns ?d ! 1) ! 0 = Str ''n/a''"
    by (simp_all add: sample_data_def)
  have v: "\<not> valid_number no_parse (Str ''n/a'')"
    by (simp add: valid_number_def convert_def no_parse_def)
  then have v': "\<not> valid_number no_parse (snd (value_columns ?d ! 1) ! 0)" unfolding c .
  have m: "custom_mean no_parse (map (\<lambda>r. Float (Temperature_Change r))
          ([row albania 2020 (Fin 1)] @ [row algeria 2021 (Fin 3)])) = Some (Fin 2)"
    using custom_mean_Float [of no_parse "[Fin 1, Fin 3]"]
    by (simp add: row_def observation_of_def Series_mean_1_3)
  note inst = missing_value_propagation [OF r j i v', of no_rounding plain_repr "[row albania 2020 (Fin 1)]"
        "[row algeria 2021 (Fin 3)]" sample_selection
        "[row albania 2021 NaN, row algeria 2021 (Fin 3)]", unfolded k]
  then obtain obs where obs: "melted_data no_parse no_rounding ?d = Inr obs"
    "Temperature_Change (obs ! 2) = NaN"
    "custom_mean no_parse (map (\<lambda>r. Float (Temperature_Change r))
          ([row albania 2020 (Fin 1)] @ obs ! 2 # [row algeria 2021 (Fin 3)])) =
     custom_mean no_parse (map (\<lambda>r. Float (Temperature_Change r))
          ([row albania 2020 (Fin 1)] @ [row algeria 2021 (Fin 3)]))"
    "obs ! 2 \<notin> set (filtered_data sample_selection
                        [row albania 2021 NaN, row algeria 2021 (Fin 3)])"
    by (elim exE conjE)
  have "custom_mean no_parse (map (\<lambda>r. Float (Temperature_Change r))
          ([row albania 2020 (Fin 1)] @ obs ! 2 # [row algeria 2021 (Fin 3)])) = Some (Fin 2)"
    using obs(3) m by (rule trans)
  with obs(1,2,4) have "\<exists>obs. melted_data no_parse no_rounding sample_data = Inr obs \<and>
      Temperature_Change (obs ! 2) = NaN \<and>
      custom_mean no_parse (map (\<lambda>r. Float (Temperature_Change r))
          ([row albania 2020 (Fin 1)] @ obs ! 2 # [row algeria 2021 (Fin 3)])) = Some (Fin 2) \<and>
      obs ! 2 \<notin> set (filtered_data sample_selection
                        [row albania 2021 NaN, row algeria 2021 (Fin 3)])"
    by (intro exI [of _ obs] conjI)
  with r v show ?thesis by (intro conjI)
qed

subsection \<open>Views without a valid value\<close>

lemma dropna_Nil_all_NaN: "dropna xs = [] \<Longrightarrow> x \<in> set xs \<Longrightarrow> x = NaN"
proof (induction xs)
  case Nil
  then show ?case by simp
next
  case (Cons y ys)
  then show ?case by (cases y) auto
qed

lemma Series_no_values:
  assumes "dropna xs = []"
  shows "Series_mean xs = NaN" "Series_median xs = NaN" "Series_std xs = NaN"
    "Series_max xs = NaN" "Series_min xs = NaN"
  using assms
  by (simp_all add: Series_mean_def Series_median_def Series_std_def Series_max_def Series_min_def)

lemma filter_temperature_no_values:
  assumes "dropna (map Temperature_Change df) = []"
  shows "filter_temperature tr df = []"
proof -
  have "Temperature_Change r = NaN" if "r \<in> set df" for r
    using dropna_Nil_all_NaN [OF assms, of "Temperature_Change r"] that by simp
  then show ?thesis by (simp add: filter_temperature_def ge_def)
qed

text \<open>
  Claim C6. When the view left by the date, country and indicator filters (line 47) has no
  valid \<^verbatim>\<open>Temperature Change\<close> value, lines 67-76 set the initial temperature range to
  \<open>[0.0, 1.0]\<close>, and the temperature filter of line 81 returns the empty view for whatever
  range the slider hands back. Nothing on these lines can raise: the minimum and maximum
  of such a column are \<open>NaN\<close>, which \<^verbatim>\<open>float\<close>, \<^verbatim>\<open>pd.isna\<close> and \<^verbatim>\<open>sorted\<close> accept. The
  slider itself is a widget of the environment.
\<close>

theorem temperature_range_default:
  assumes "dropna (map Temperature_Change (filtered_data_47 sel md)) = []"
  shows "initial_temperature_range (filtered_data_47 sel md) = (Fin 0, Fin 1) \<and>
         filtered_data sel md = []"
proof -
  have "initial_temperature_range (filtered_data_47 sel md) = (Fin 0, Fin 1)"
    by (simp add: initial_temperature_range_def Series_no_values [OF assms] isna_def
        sorted_pair_def lt_def)
  moreover have "filtered_data sel md = []"
    unfolding filtered_data_def using assms by (rule filter_temperature_no_values)
  ultimately show ?thesis by simp
qed

lemma filtered_data_47_sample:
  "filtered_data_47 sample_selection [row albania 2021 NaN, row andorra 2021 (Fin 2)] =
     [row albania 2021 NaN]"
  by (simp add: filtered_data_47_def filter_date_def filter_country_def filter_indicator_def
      sample_selection_def row_def observation_of_def melt_row_def albania_def andorra_def
      ge_def le_def)

theorem temperature_range_default_witness:
  "filtered_data_47 sample_selection [row albania 2021 NaN, row andorra 2021 (Fin 2)] =
     [row albania 2021 NaN] \<and>
   dropna (map Temperature_Change
     (filtered_data_47 sample_selection [row albania 2021 NaN, row andorra 2021 (Fin 2)])) = [] \<and>
   initial_temperature_range
     (filtered_data_47 sample_selection [row albania 2021 NaN, row andorra 2021 (Fin 2)]) =
     (Fin 0, Fin 1) \<and>
   filtered_data sample_selection [row albania 2021 NaN, row andorra 2021 (Fin 2)] = []"
proof -
  have h: "dropna (map Temperature_Change
     (filtered_data_47 sample_selection [row albania 2021 NaN, row andorra 2021 (Fin 2)])) = []"
    unfolding filtered_data_47_sample by (simp add: row_def observation_of_def)
  show ?thesis using filtered_data_47_sample h temperature_range_default [OF h] by simp
qed

text \<open>
  Claim C7, as amended. When the view has no valid \<^verbatim>\<open>Temperature Change\<close> value (it may
  have no row at all), each of the five statistics is \<open>NaN\<close> and its sidebar line shows
  that value as the text \<^verbatim>\<open>nan\<close>: no line shows zero, and there is no state other than
  the float \<open>NaN\<close> for an undefined statistic.
\<close>

theorem statistics_no_values:
  assumes "dropna (map Temperature_Change df) = []"
  shows "Statistical_Measures repr df =
           [''Mean Temperature Change: nan'',
            ''Median Temperature Change: nan'',
            ''Standard Deviation: nan'',
            ''Max Temperature Change: nan'',
            ''Min Temperature Change: nan'']"
  by (simp add: Statistical_Measures_def Series_no_values [OF assms] str_float_def)

theorem statistics_no_values_witness:
  "dropna (map Temperature_Change [row albania 2021 NaN]) = [] \<and>
   Statistical_Measures plain_repr [row albania 2021 NaN] =
           [''Mean Temperature Change: nan'',
            ''Median Temperature Change: nan'',
            ''Standard Deviation: nan'',
            ''Max Temperature Change: nan'',
            ''Min Temperature Change: nan'']"
proof -
  have h: "dropna (map Temperature_Change [row albania 2021 NaN]) = []"
    by (simp add: row_def observation_of_def)
  show ?thesis using h statistics_no_values [OF h, of plain_repr] by simp
qed

text \<open>
  Claim C7 as stated fails: with no country selected the filtered view is empty, and the
  five sidebar lines print the propagated \<open>NaN\<close> of the reductions as \<^verbatim>\<open>nan\<close>, not an
  explicit undefined state.
\<close>

theorem statistics_nan_counterexample:
  "Statistical_Measures plain_repr (filtered_data (sample_selection\<lparr>selected_countries := []\<rparr>)
       [row albania 2020 (Fin 1), row algeria 2020 (Fin 2)]) =
     [''Mean Temperature Change: nan'',
      ''Median Temperature Change: nan'',
      ''Standard Deviation: nan'',
      ''Max Temperature Change: nan'',
      ''Min Temperature Change: nan'']"
  by (simp add: filtered_data_def filtered_data_47_def filter_country_def filter_indicator_def
      filter_temperature_def Statistical_Measures_def Series_mean_def Series_median_def
      Series_std_def Series_max_def Series_min_def str_float_def)

subsection \<open>Aggregation\<close>

lemma those_map_all:
  "those (map f cs) = Some xs \<Longrightarrow> x \<in> set xs \<Longrightarrow> \<exists>c \<in> set cs. f c = Some x"
proof (induction cs arbitrary: xs)
  case Nil
  then show ?case by simp
next
  case (Cons c cs)
  then show ?case by (auto split: option.splits)
qed

lemma all_NaN_dropna: "\<forall>x \<in> set xs. x = NaN \<Longrightarrow> dropna xs = []"
  by (induction xs) simp_all

lemma custom_mean_no_valid_number:
  assumes "\<forall>c \<in> set series. \<not> valid_number parse c"
  shows "custom_mean parse series = None \<or> custom_mean parse series = Some NaN"
proof (cases "those (map (convert parse) series)")
  case None
  then show ?thesis by (simp add: custom_mean_def to_numeric_def)
next
  case (Some xs)
  have "x = NaN" if xin: "x \<in> set xs" for x
  proof -
    obtain c where "c \<in> set series" "convert parse c = Some x"
      using those_map_all [OF Some xin] by blast
    then show ?thesis using assms by (cases x) (auto simp add: valid_number_def)
  qed
  then have "dropna xs = []" by (simp add: all_NaN_dropna)
  then have "Series_mean xs = NaN" by (rule Series_no_values)
  then show ?thesis using Some by (simp add: custom_mean_def to_numeric_def)
qed

lemma aggregated_data_entry:
  assumes "(k, v) \<in> set (aggregated_data parse df)"
  shows "v = custom_mean parse
               (map (\<lambda>r. Float (Temperature_Change r)) (filter (\<lambda>r. group_key r = Some k) df))"
    and "\<exists>r \<in> set df. group_key r = Some k"
  using assms by (auto simp add: aggregated_data_def map_filter_def)

text \<open>
  Claim C8. On a series in which no cell holds a valid number the reducer \<^verbatim>\<open>custom_mean\<close>
  returns a value that stands for no value: \<^verbatim>\<open>None\<close> when the conversion raised (the
  exception is caught), the float \<open>NaN\<close> otherwise; so it neither raises nor returns zero.
  When the series is that of a (group, year) bucket of the aggregation, whose cells are
  floats, the row of the bucket in the aggregated table carries \<open>NaN\<close>.
\<close>

theorem aggregator_exclusion:
  assumes "\<forall>c \<in> set series. \<not> valid_number parse c"
  shows "(custom_mean parse series = None \<or> custom_mean parse series = Some NaN) \<and>
         ((k, v) \<in> set (aggregated_data parse df) \<and>
          series = map (\<lambda>r. Float (Temperature_Change r)) (filter (\<lambda>r. group_key r = Some k) df)
          \<longrightarrow> v = Some NaN)"
proof -
  have a: "custom_mean parse series = None \<or> custom_mean parse series = Some NaN"
    using assms by (rule custom_mean_no_valid_number)
  have "v = Some NaN"
    if kv: "(k, v) \<in> set (aggregated_data parse df)"
      and s: "series = map (\<lambda>r. Float (Temperature_Change r)) (filter (\<lambda>r. group_key r = Some k) df)"
  proof -
    have "v = custom_mean parse series" using aggregated_data_entry(1) [OF kv] s by simp
    moreover have "custom_mean parse series \<noteq> None"
      using custom_mean_Float [of parse "map Temperature_Change (filter (\<lambda>r. group_key r = Some k) df)"]
      unfolding s by (simp add: comp_def)
    ultimately show ?thesis using a by auto
  qed
  then show ?thesis using a by blast
qed



lemma row_fields:
  "Country (row r y t) = Country r" "Indicator (row r y t) = Indicator r"
  "Year (row r y t) = Fin y" "Temperature_Change (row r y t) = t"
  by (simp_all add: row_def observation_of_def melt_row_def)

lemma sample_countries:
  "Country albania = ''Albania''" "Country algeria = ''Algeria''"
  "Country andorra = ''Andorra, Principality of''"
  by (simp_all add: albania_def algeria_def andorra_def)

lemma region_of_samples:
  "actual_region_mapping ''Albania'' = Some ''Europe''"
  "actual_region_mapping ''Algeria'' = Some ''Africa''"
  "actual_region_mapping ''Andorra, Principality of'' = None"
  by (simp_all add: actual_region_mapping_def)

lemma group_key_samples:
  "group_key (row albania y t) = Some (''Europe'', y)"
  "group_key (row algeria y t) = Some (''Africa'', y)"
  "group_key (row andorra y t) = None"
  by (simp_all add: group_key_def Aggregated_def row_fields sample_countries region_of_samples)

lemma key_order: "((''Africa'', y) :: string \<times> real) < (''Europe'', y)"
  by (simp add: less_prod_def)

lemma custom_mean_single: "custom_mean parse [Float x] = Some (Series_mean [x])"
  using custom_mean_Float [of parse "[x]"] by simp

lemma Series_mean_single: "Series_mean [NaN] = NaN" "Series_mean [Fin v] = Fin v"
  by (simp_all add: Series_mean_def)

theorem aggregator_exclusion_witness:
  "\<not> valid_number no_parse (Float NaN) \<and> \<not> valid_number no_parse (Str ''n/a'') \<and>
   custom_mean no_parse [Float NaN, Str ''n/a''] = None \<and>
   custom_mean no_parse [Float NaN] = Some NaN \<and>
   [Float NaN] = map (\<lambda>r. Float (Temperature_Change r))
      (filter (\<lambda>r. group_key r = Some (''Europe'', 2021)) [row albania 2021 NaN]) \<and>
   aggregated_data no_parse [row albania 2021 NaN] = [((''Europe'', 2021), Some NaN)]"
proof -
  have v: "\<not> valid_number no_parse (Float NaN)" "\<not> valid_number no_parse (Str ''n/a'')"
    by (simp_all add: valid_number_def convert_def no_parse_def)
  have h1: "\<forall>c \<in> set [Float NaN, Str ''n/a'']. \<not> valid_number no_parse c" using v by simp
  have h2: "\<forall>c \<in> set [Float NaN]. \<not> valid_number no_parse c" using v by simp
  have n: "custom_mean no_parse [Float NaN, Str ''n/a''] \<noteq> Some NaN"
    by (simp add: custom_mean_def to_numeric_def convert_def no_parse_def)
  have a: "custom_mean no_parse [Float NaN, Str ''n/a''] = None"
    using aggregator_exclusion [OF h1, of "(''Europe'', 2021)" "Some NaN" "[]"] n by blast
  have s: "[Float NaN] = map (\<lambda>r. Float (Temperature_Change r))
      (filter (\<lambda>r. group_key r = Some (''Europe'', 2021)) [row albania 2021 NaN])"
    by (simp add: group_key_samples row_fields)
  have w: "aggregated_data no_parse [row albania 2021 NaN] =
             [((''Europe'', 2021), custom_mean no_parse [Float NaN])]"
    by (simp add: aggregated_data_def map_filter_def group_key_samples row_fields)
  then have "((''Europe'', 2021), custom_mean no_parse [Float NaN]) \<in>
               set (aggregated_data no_parse [row albania 2021 NaN])"
    by simp
  then have b: "custom_mean no_parse [Float NaN] = Some NaN"
    using aggregator_exclusion [OF h2, of "(''Europe'', 2021)" "custom_mean no_parse [Float NaN]"
        "[row albania 2021 NaN]"] s
    by blast
  have e: "aggregated_data no_parse [row albania 2021 NaN] = [((''Europe'', 2021), Some NaN)]"
    unfolding w b by (rule refl)
  show ?thesis using v a b s e by (intro conjI)
qed

lemma group_key_unmapped: "actual_region_mapping (Country r) = None \<Longrightarrow> group_key r = None"
  by (simp add: group_key_def Aggregated_def)

lemma aggregated_data_skip:
  assumes "group_key r = None"
  shows "aggregated_data parse (before @ r # after) = aggregated_data parse (before @ after)"
  using assms by (simp add: aggregated_data_def map_filter_def)

text \<open>
  Claim C10. For an observation whose country is no key of \<^verbatim>\<open>actual_region_mapping\<close> the
  mapping of line 116 gives a missing label (a value, not an exception), and the grouping
  of line 126 leaves the row out: with the row anywhere in the view the aggregated table is
  the one computed without it. Every row of an aggregated table has the label and year of
  some observation of the view whose country is mapped, so no row stands for an unmapped
  country.
\<close>

theorem unmapped_countries_dropped:
  assumes "actual_region_mapping (Country r) = None"
  shows "Aggregated r = None \<and>
         aggregated_data parse (before @ r # after) = aggregated_data parse (before @ after) \<and>
         (((g, y), v) \<in> set (aggregated_data parse df) \<longrightarrow>
            (\<exists>r' \<in> set df. actual_region_mapping (Country r') = Some g \<and> Year r' = Fin y))"
proof -
  have a: "Aggregated r = None" using assms by (simp add: Aggregated_def)
  have b: "aggregated_data parse (before @ r # after) = aggregated_data parse (before @ after)"
    using group_key_unmapped [OF assms] by (rule aggregated_data_skip)
  have c: "\<exists>r' \<in> set df. actual_region_mapping (Country r') = Some g \<and> Year r' = Fin y"
    if entry: "((g, y), v) \<in> set (aggregated_data parse df)"
  proof -
    obtain r' where "r' \<in> set df" "group_key r' = Some (g, y)"
      using aggregated_data_entry(2) [OF entry] by blast
    then show ?thesis
      by (auto simp add: group_key_def Aggregated_def split: option.splits float64.splits)
  qed
  show ?thesis using a b c by blast
qed

theorem unmapped_countries_dropped_witness:
  "actual_region_mapping (Country (row andorra 2020 (Fin 2))) = None \<and>
   Aggregated (row andorra 2020 (Fin 2)) = None \<and>
   aggregated_data no_parse ([row albania 2020 (Fin 1)] @ row andorra 2020 (Fin 2) # []) =
     [((''Europe'', 2020), Some (Fin 1))] \<and>
   (\<exists>r' \<in> set [row albania 2020 (Fin 1), row andorra 2020 (Fin 2)].
       actual_region_mapping (Country r') = Some ''Europe'' \<and> Year r' = Fin 2020)"
proof -
  let ?r = "row andorra 2020 (Fin 2)"
  have h: "actual_region_mapping (Country ?r) = None"
    by (simp add: row_fields sample_countries region_of_samples)
  have e: "aggregated_data no_parse ([row albania 2020 (Fin 1)] @ []) =
             [((''Europe'', 2020), Some (Fin 1))]"
    by (simp add: aggregated_data_def map_filter_def group_key_samples row_fields
        custom_mean_single Series_mean_single)
  note inst = unmapped_countries_dropped [OF h, of no_parse "[row albania 2020 (Fin 1)]" "[]"
      "''Europe''" 2020 "Some (Fin 1)" "[row albania 2020 (Fin 1), row andorra 2020 (Fin 2)]"]
  have a: "Aggregated ?r = None" using inst by (rule conjunct1)
  have b: "aggregated_data no_parse ([row albania 2020 (Fin 1)] @ ?r # []) =
             [((''Europe'', 2020), Some (Fin 1))]"
    using inst e by simp
  then have "((''Europe'', 2020), Some (Fin 1)) \<in>
      set (aggregated_data no_parse [row albania 2020 (Fin 1), row andorra 2020 (Fin 2)])"
    by simp
  then have c: "\<exists>r' \<in> set [row albania 2020 (Fin 1), row andorra 2020 (Fin 2)].
       actual_region_mapping (Country r') = Some ''Europe'' \<and> Year r' = Fin 2020"
    using inst by blast
  show ?thesis using h a b c by (intro conjI)
qed

text \<open>
  Claim C9 fails on the code. The level chosen on line 105 reaches only the title of the
  chart (line 131); the table of line 126 is built from \<^verbatim>\<open>actual_region_mapping\<close> for
  every level. On a view with one Albanian and one Algerian row the three levels give the
  same table, grouped by the labels \<^verbatim>\<open>Africa\<close> and \<^verbatim>\<open>Europe\<close>, under three titles.
\<close>

theorem aggregation_level_ignored:
  "Data_Aggregation no_parse Level_Country [row albania 2020 (Fin 1), row algeria 2020 (Fin 2)] =
     ([((''Africa'', 2020), Some (Fin 2)), ((''Europe'', 2020), Some (Fin 1))],
      ''Aggregated Temperature Change Over Time by Country'') \<and>
   Data_Aggregation no_parse Level_Region [row albania 2020 (Fin 1), row algeria 2020 (Fin 2)] =
     ([((''Africa'', 2020), Some (Fin 2)), ((''Europe'', 2020), Some (Fin 1))],
      ''Aggregated Temperature Change Over Time by Region'') \<and>
   Data_Aggregation no_parse Level_Continent [row albania 2020 (Fin 1), row algeria 2020 (Fin 2)] =
     ([((''Africa'', 2020), Some (Fin 2)), ((''Europe'', 2020), Some (Fin 1))],
      ''Aggregated Temperature Change Over Time by Continent'')"
proof -
  have "aggregated_data no_parse [row albania 2020 (Fin 1), row algeria 2020 (Fin 2)] =
          [((''Africa'', 2020), Some (Fin 2)), ((''Europe'', 2020), Some (Fin 1))]"
    by (simp add: aggregated_data_def map_filter_def group_key_samples row_fields
        custom_mean_single Series_mean_single less_eq_prod_def)
  then show ?thesis
    by (simp add: Data_Aggregation_def fig_aggregated_title_def level_name_def)
qed

subsection \<open>Default date range\<close>

text \<open>
  Lines 31-33 compute the defaults of the date widget from the years of the melted table.
  They raise on a table without rows, and when the first year in order of appearance is
  \<open>NaN\<close>, that is, when the label of the first value column holds no digit; a \<open>NaN\<close> year
  further down is passed over by the builtin \<^verbatim>\<open>min\<close> and \<^verbatim>\<open>max\<close>.
\<close>

lemma default_date_range_empty: "default_date_range [] = Inl ValueError"
  by (simp add: default_date_range_def unique_def py_min_def)

lemma default_date_range_sample:
  "default_date_range [row albania 2020 (Fin 1), row algeria 2021 (Fin 3), row albania 2021 NaN] =
     Inr (2020, 2021)"
  by (simp add: default_date_range_def unique_def py_min_def py_max_def py_int_def date_year_def
      lt_def row_fields)

lemma default_date_range_leading_NaN:
  "default_date_range
     [observation_of (melt_row (ascii ''Total'') albania (Float (Fin 4))) NaN (Fin 4),
      row albania 2020 (Fin 1)] = Inl ValueError"
  by (simp add: default_date_range_def unique_def py_min_def py_int_def lt_def row_fields
      observation_of_def)

end
